theory Spec2Isabelle
  imports Complex_Main "HOL-Library.Sublist"
begin

section \<open>Data model (app.py, lines 34-52)\<close>

text \<open>
  The two tables of the application. A nullable column is an \<open>option\<close>; the primary keys
  are natural numbers (the store hands out positive row ids, and the URL converter
  \<open>int:id\<close> of the routes accepts unsigned numbers only, of any size). A string is the
  list of the bytes of its UTF-8 encoding, which is what the database gets. The type
  \<open>'f\<close> stands for the numbers a float column can hold: the finite floats and the two
  infinities, compared as Python's \<open>==\<close> compares them (so the two zeros are one value).
  A Python \<open>float\<close> is such a number or not-a-number.
\<close>

datatype 'f pyfloat = Nan | Num 'f

record user =
  u_id :: nat
  username :: string
  password :: string

record 'f spot =
  s_id :: nat
  name :: string
  city :: "string option"
  comment :: "string option"
  lat :: "'f option"
  lng :: "'f option"
  user_id :: "nat option"

text \<open>
  The database: both tables as lists of rows in insertion order, which is also the order
  of the row ids and the order in which an unordered \<open>query.all()\<close> scans the table.
  A row keeps a text as the handler gave it; a float column keeps a number and turns
  not-a-number into null (\<open>stored_float\<close>). What the storage engine does when the row ids
  are used up is outside this model.
\<close>

record 'f db =
  users :: "user list"
  spots :: "'f spot list"

definition stored_float :: "'f pyfloat option \<Rightarrow> 'f option" where
  "stored_float x = (case x of None \<Rightarrow> None | Some Nan \<Rightarrow> None | Some (Num v) \<Rightarrow> Some v)"

section \<open>Requests and responses\<close>

datatype http_method = GET | POST

text \<open>
  \<open>request.args\<close> and \<open>request.form\<close> as maps from a key to its first value:
  \<open>.get(k)\<close> is the lookup, \<open>form[k]\<close> raises a Bad Request when the key is absent.
\<close>

record request =
  req_method :: http_method
  req_args :: "string \<rightharpoonup> string"
  req_form :: "string \<rightharpoonup> string"

datatype target =
    To_index
  | To_login_next   \<comment> \<open>the login view, remembering the requested page\<close>
  | To_url string   \<comment> \<open>the \<open>next\<close> page given to the login form\<close>

text \<open>The messages handed to \<open>flash\<close>, one constructor per message of the source.\<close>

datatype notice =
    Please_log_in          \<comment> \<open>flashed by \<open>login_required\<close> for an anonymous caller\<close>
  | Bad_credentials        \<comment> \<open>line 85: account or password wrong\<close>
  | Added                  \<comment> \<open>line 130\<close>
  | No_permission_edit     \<comment> \<open>line 142\<close>
  | Updated                \<comment> \<open>line 153\<close>
  | No_permission_delete   \<comment> \<open>line 165\<close>
  | Deleted                \<comment> \<open>line 169\<close>

text \<open>
  What ends a handler early: \<open>get_or_404\<close>, a missing key in \<open>request.form[...]\<close>, and
  exceptions nobody catches (the \<open>ValueError\<close> of \<open>float\<close>, a failure inside the
  password check, and the errors of the database driver and engine).
\<close>

datatype failure =
    Not_found          \<comment> \<open>HTTP 404\<close>
  | Bad_request        \<comment> \<open>HTTP 400\<close>
  | Value_error        \<comment> \<open>unhandled \<open>ValueError\<close>\<close>
  | Hash_error         \<comment> \<open>unhandled exception of the password check\<close>
  | Overflow_error     \<comment> \<open>unhandled \<open>OverflowError\<close>: an integer too large for the database\<close>
  | Operational_error  \<comment> \<open>unhandled \<open>OperationalError\<close>: the engine refuses the pattern\<close>

datatype 'f response =
    Render_index "'f spot list" "string option"
  | Render_login
  | Render_add_edit "'f spot option"
  | Render_map "'f spot list"
  | Redirect target
  | Failed failure

text \<open>
  The result of one request: the response, the notices flashed while handling it, and the
  database and the session (the id of the logged-in user, if any) afterwards.
\<close>

record 'f outcome =
  resp :: "'f response"
  flashed :: "notice list"
  db_after :: "'f db"
  session_after :: "nat option"

definition respond :: "'f response \<Rightarrow> notice list \<Rightarrow> 'f db \<Rightarrow> nat option \<Rightarrow> 'f outcome" where
  "respond r ns d s = \<lparr>resp = r, flashed = ns, db_after = d, session_after = s\<rparr>"

text \<open>
  An exception leaves the handler before any commit: nothing is flashed and the database
  and the session stay as they were.
\<close>

definition fail :: "failure \<Rightarrow> 'f db \<Rightarrow> nat option \<Rightarrow> 'f outcome" where
  "fail e d s = respond (Failed e) [] d s"

section \<open>Authentication (lines 57-59, 74-86)\<close>

definition load_user :: "'f db \<Rightarrow> nat option \<Rightarrow> user option" where
  "load_user d s =
     (case s of None \<Rightarrow> None | Some i \<Rightarrow> find (\<lambda>u. u_id u = i) (users d))"

text \<open>
  The decorator \<open>login_required\<close>: an anonymous caller is sent to the login view,
  everybody else reaches the handler with \<open>current_user\<close>.
\<close>

definition login_required :: "'f db \<Rightarrow> nat option \<Rightarrow> (user \<Rightarrow> 'f outcome) \<Rightarrow> 'f outcome" where
  "login_required d s handler =
     (case load_user d s of
        None \<Rightarrow> respond (Redirect To_login_next) [Please_log_in] d s
      | Some u \<Rightarrow> handler u)"



section \<open>The city filter (line 70)\<close>

text \<open>
  \<open>Spot.city.contains(city)\<close> is the column operator of the object-relational mapper: it
  becomes the SQL condition \<open>city LIKE '%' || :city || '%'\<close>, with no escape character, and
  the database of line 19 is SQLite. There \<open>%\<close> in a pattern stands for any run of
  characters, \<open>_\<close> for any one character, and every other character matches itself, the
  ASCII letters without regard to case. A character is a whole UTF-8 sequence: a leading
  byte from \<open>0xC0\<close> on with the continuation bytes (\<open>0x80\<close> to \<open>0xBF\<close>) that follow it.
  The engine reads the pattern and the text as C strings, up to their first NUL byte. A
  null city matches nothing. A pattern of more than 50000 bytes, NUL and what follows it
  included, is refused with an error as soon as the condition is evaluated on a row.
\<close>

definition is_cont :: "char \<Rightarrow> bool" where
  "is_cont c \<longleftrightarrow> 128 \<le> (of_char c :: nat) \<and> (of_char c :: nat) < 192"

definition skip_char :: "char \<Rightarrow> string \<Rightarrow> string" where
  "skip_char c cs = (if 192 \<le> (of_char c :: nat) then dropWhile is_cont cs else cs)"

definition c_str :: "string \<Rightarrow> string" where
  "c_str t = takeWhile (\<lambda>c. c \<noteq> CHR 0x00) t"

definition tolower :: "char \<Rightarrow> char" where
  "tolower c =
     (let n = (of_char c :: nat) in if 65 \<le> n \<and> n \<le> 90 then char_of (n + 32) else c)"

function like :: "string \<Rightarrow> string \<Rightarrow> bool" where
  "like [] s = (s = [])"
| "like (p # ps) [] = (p = CHR ''%'' \<and> like ps [])"
| "like (p # ps) (c # cs) =
     (if p = CHR ''%'' then like ps (c # cs) \<or> like (p # ps) (skip_char c cs)
      else if p = CHR ''_'' then like ps (skip_char c cs)
      else tolower p = tolower c \<and> like ps cs)"
  by pat_completeness auto
termination
proof (relation "measure (\<lambda>(p, s). length p + length s)")
  fix p :: char and ps :: string and c :: char and cs :: string
  have len: "length (skip_char c cs) \<le> length cs"
    by (simp add: skip_char_def length_dropWhile_le)
  show "((p # ps, skip_char c cs), p # ps, c # cs) \<in> measure (\<lambda>(p, s). length p + length s)"
    using len by simp
  show "((ps, skip_char c cs), p # ps, c # cs) \<in> measure (\<lambda>(p, s). length p + length s)"
    using len by simp
qed simp_all

definition pattern_limit :: nat where
  "pattern_limit = 50000"

definition contains :: "string option \<Rightarrow> string \<Rightarrow> bool" where
  "contains col x =
     (case col of
        None \<Rightarrow> False
      | Some c \<Rightarrow> like (c_str (CHR ''%'' # x @ [CHR ''%''])) (c_str c))"

section \<open>The handlers of the spots\<close>

text \<open>
  \<open>index\<close>, lines 64-72. The engine evaluates the pattern condition on the rows of the
  user, so the error of an overlong pattern needs such a row.
\<close>

definition index :: "'f db \<Rightarrow> nat option \<Rightarrow> request \<Rightarrow> 'f outcome" where
  "index d s r =
     login_required d s (\<lambda>u.
       let c = req_args r ''city'';
           query = filter (\<lambda>x. user_id x = Some (u_id u)) (spots d)
       in case c of
            None \<Rightarrow> respond (Render_index query c) [] d s
          | Some f \<Rightarrow>
              if f = [] then respond (Render_index query c) [] d s
              else if query \<noteq> [] \<and> pattern_limit < length f + 2
                then fail Operational_error d s
              else respond (Render_index (filter (\<lambda>x. contains (city x) f) query) c) [] d s)"

text \<open>\<open>map_view\<close>, lines 175-179.\<close>

definition map_view :: "'f db \<Rightarrow> nat option \<Rightarrow> 'f outcome" where
  "map_view d s =
     login_required d s (\<lambda>u.
       respond (Render_map (filter (\<lambda>x. user_id x = Some (u_id u)) (spots d))) [] d s)"

text \<open>
  \<open>float(x) if x else None\<close> (lines 124, 125, 150, 151): an absent or empty input is
  \<open>None\<close>, anything else goes to \<open>float\<close>, whose \<open>ValueError\<close> nobody catches. Python's
  \<open>float\<close> on strings is the parameter \<open>pyfloat\<close>, with \<open>None\<close> for the \<open>ValueError\<close>.
\<close>

definition float_or_none ::
  "(string \<Rightarrow> 'f pyfloat option) \<Rightarrow> string option \<Rightarrow> failure + 'f pyfloat option" where
  "float_or_none pyfloat x =
     (case x of
        None \<Rightarrow> Inr None
      | Some t \<Rightarrow> if t = [] then Inr None
                 else (case pyfloat t of None \<Rightarrow> Inl Value_error | Some v \<Rightarrow> Inr (Some v)))"

text \<open>
  The row id of an inserted row: one more than the largest id of the table, 1 in an empty
  table.
\<close>

definition fresh_id :: "'f spot list \<Rightarrow> nat" where
  "fresh_id ss = Suc (fold max (map s_id ss) 0)"

text \<open>\<open>add_spot\<close>, lines 113-132.\<close>

definition add_spot ::
  "(string \<Rightarrow> 'f pyfloat option) \<Rightarrow> 'f db \<Rightarrow> nat option \<Rightarrow> request \<Rightarrow> 'f outcome" where
  "add_spot pyfloat d s r =
     login_required d s (\<lambda>u.
       if req_method r = POST then
         (case req_form r ''name'' of
            None \<Rightarrow> fail Bad_request d s
          | Some n \<Rightarrow>
              (case float_or_none pyfloat (req_form r ''lat'') of
                 Inl e \<Rightarrow> fail e d s
               | Inr la \<Rightarrow>
                   (case float_or_none pyfloat (req_form r ''lng'') of
                      Inl e \<Rightarrow> fail e d s
                    | Inr lo \<Rightarrow>
                        respond (Redirect To_index) [Added]
                          (d\<lparr>spots := spots d @
                               [\<lparr>s_id = fresh_id (spots d), name = n,
                                 city = req_form r ''city'',
                                 comment = req_form r ''comment'',
                                 lat = stored_float la, lng = stored_float lo,
                                 user_id = Some (u_id u)\<rparr>]\<rparr>)
                          s)))
       else respond (Render_add_edit None) [] d s)"

text \<open>
  \<open>Spot.query.get_or_404(id)\<close>: the row with that primary key, or a 404. The row ids of
  the store are 64-bit signed integers, and the driver refuses an id of \<open>2^63\<close> or more
  with an \<open>OverflowError\<close> before it asks the store; no row has such an id, so this is
  the answer for ids that are too large and are, necessarily, not in the store.
\<close>

definition get_spot :: "'f db \<Rightarrow> nat \<Rightarrow> 'f spot option" where
  "get_spot d i = find (\<lambda>x. s_id x = i) (spots d)"

definition get_or_404 :: "'f db \<Rightarrow> nat \<Rightarrow> failure + 'f spot" where
  "get_or_404 d i =
     (case get_spot d i of
        Some sp \<Rightarrow> Inr sp
      | None \<Rightarrow> if 2 ^ 63 \<le> i then Inl Overflow_error else Inl Not_found)"

text \<open>
  \<open>edit_spot\<close>, lines 137-155. The commit writes the five assigned columns to the row
  with the primary key \<open>i\<close>.
\<close>

definition edit_spot ::
  "(string \<Rightarrow> 'f pyfloat option) \<Rightarrow> 'f db \<Rightarrow> nat option \<Rightarrow> request \<Rightarrow> nat \<Rightarrow> 'f outcome" where
  "edit_spot pyfloat d s r i =
     login_required d s (\<lambda>u.
       case get_or_404 d i of
         Inl e \<Rightarrow> fail e d s
       | Inr sp \<Rightarrow>
           if user_id sp \<noteq> Some (u_id u) then
             respond (Redirect To_index) [No_permission_edit] d s
           else if req_method r = POST then
             (case req_form r ''name'' of
                None \<Rightarrow> fail Bad_request d s
              | Some n \<Rightarrow>
                  (case float_or_none pyfloat (req_form r ''lat'') of
                     Inl e \<Rightarrow> fail e d s
                   | Inr la \<Rightarrow>
                       (case float_or_none pyfloat (req_form r ''lng'') of
                          Inl e \<Rightarrow> fail e d s
                        | Inr lo \<Rightarrow>
                            respond (Redirect To_index) [Updated]
                              (d\<lparr>spots :=
                                   map (\<lambda>x. if s_id x = i
                                             then x\<lparr>name := n,
                                                    city := req_form r ''city'',
                                                    comment := req_form r ''comment'',
                                                    lat := stored_float la,
                                                    lng := stored_float lo\<rparr>
                                             else x)
                                       (spots d)\<rparr>)
                              s)))
           else respond (Render_add_edit (Some sp)) [] d s)"

text \<open>\<open>delete_spot\<close>, lines 160-170. The commit deletes the row with the primary key \<open>i\<close>.\<close>

definition delete_spot :: "'f db \<Rightarrow> nat option \<Rightarrow> nat \<Rightarrow> 'f outcome" where
  "delete_spot d s i =
     login_required d s (\<lambda>u.
       case get_or_404 d i of
         Inl e \<Rightarrow> fail e d s
       | Inr sp \<Rightarrow>
           if user_id sp \<noteq> Some (u_id u) then
             respond (Redirect To_index) [No_permission_delete] d s
           else
             respond (Redirect To_index) [Deleted]
               (d\<lparr>spots := filter (\<lambda>x. s_id x \<noteq> i) (spots d)\<rparr>) s)"

section \<open>Reading a response\<close>

text \<open>
  The spots a response shows: the ones handed to the listing, to the map or to the edit
  form.
\<close>

fun rendered_spots :: "'f response \<Rightarrow> 'f spot list" where
  "rendered_spots (Render_index xs c) = xs"
| "rendered_spots (Render_map xs) = xs"
| "rendered_spots (Render_add_edit x) = (case x of None \<Rightarrow> [] | Some sp \<Rightarrow> [sp])"
| "rendered_spots Render_login = []"
| "rendered_spots (Redirect t) = []"
| "rendered_spots (Failed e) = []"

section \<open>Sample data\<close>

text \<open>
  A small database for the concrete checks below: two users, and one spot owned by the
  first of them. Coordinates are real numbers here, \<open>sample_float\<close> reads the three
  numerals the checks use and \<open>nan\<close> and rejects everything else, and \<open>sample_check\<close>
  compares the submitted password with the stored one.
\<close>

definition alice :: user where
  "alice = \<lparr>u_id = 1, username = ''alice'', password = ''pw1''\<rparr>"

definition bob :: user where
  "bob = \<lparr>u_id = 2, username = ''bob'', password = ''pw2''\<rparr>"

definition tower :: "real spot" where
  "tower = \<lparr>s_id = 1, name = ''Tower'', city = Some ''Taipei'', comment = None,
            lat = None, lng = None, user_id = Some 1\<rparr>"

definition db1 :: "real db" where
  "db1 = \<lparr>users = [alice, bob], spots = [tower]\<rparr>"

definition sample_float :: "string \<Rightarrow> real pyfloat option" where
  "sample_float t =
     (if t = ''35.0'' then Some (Num 35) else if t = ''135.8'' then Some (Num (1358 / 10))
      else if t = ''91'' then Some (Num 91) else if t = ''nan'' then Some Nan else None)"

definition sample_check :: "string \<Rightarrow> string \<Rightarrow> bool" where
  "sample_check h p \<longleftrightarrow> p = h"

definition post_form :: "(string \<rightharpoonup> string) \<Rightarrow> request" where
  "post_form f = \<lparr>req_method = POST, req_args = Map.empty, req_form = f\<rparr>"

definition get_args :: "(string \<rightharpoonup> string) \<Rightarrow> request" where
  "get_args a = \<lparr>req_method = GET, req_args = a, req_form = Map.empty\<rparr>"

lemmas sample_defs = alice_def bob_def tower_def db1_def sample_float_def sample_check_def
  post_form_def get_args_def

lemmas handler_defs = load_user_def login_required_def respond_def fail_def get_spot_def
  get_or_404_def

section \<open>Auxiliary facts\<close>

lemma load_user_spots [simp]: "load_user (d\<lparr>spots := ss\<rparr>) s = load_user d s"
  by (simp add: load_user_def split: option.splits)

lemma fold_max_ge: "(a::nat) \<le> fold max xs a"
  by (induction xs arbitrary: a) (auto intro: order_trans [OF max.cobounded2])

lemma fold_max_mem: "(x::nat) \<in> set xs \<Longrightarrow> x \<le> fold max xs a"
proof (induction xs arbitrary: a)
  case Nil
  then show ?case by simp
next
  case (Cons y ys)
  show ?case
  proof (cases "x = y")
    case True
    have "y \<le> max y a" by simp
    also have "\<dots> \<le> fold max ys (max y a)" by (rule fold_max_ge)
    finally show ?thesis using True by simp
  next
    case False
    with Cons.prems have "x \<in> set ys" by simp
    then show ?thesis using Cons.IH by simp
  qed
qed

lemma fresh_id_fresh: "x \<in> set ss \<Longrightarrow> s_id x < fresh_id ss"
  using fold_max_mem [of "s_id x" "map s_id ss" 0] by (simp add: fresh_id_def less_Suc_eq_le)

lemma find_append_fresh:
  assumes "\<forall>x \<in> set xs. \<not> P x" and "P y"
  shows "find P (xs @ [y]) = Some y"
  using assms by (induction xs) auto

lemma find_map_update:
  assumes "find (\<lambda>x. s_id x = i) xs = Some sp" and "\<And>x. s_id (g x) = s_id x"
  shows "find (\<lambda>x. s_id x = i) (map (\<lambda>x. if s_id x = i then g x else x) xs) = Some (g sp)"
  using assms by (induction xs) (auto split: if_splits)


lemma get_spot_appended:
  assumes "s_id x = fresh_id (spots d)"
  shows "get_spot (d\<lparr>spots := spots d @ [x]\<rparr>) (fresh_id (spots d)) = Some x"
proof -
  have "\<forall>y \<in> set (spots d). \<not> s_id y = fresh_id (spots d)"
    using fresh_id_fresh [of _ "spots d"] by fastforce
  with assms show ?thesis by (simp add: get_spot_def find_append_fresh)
qed

lemma get_spot_updated:
  assumes "get_spot d i = Some sp" and "\<And>x. s_id (g x) = s_id x"
  shows "get_spot (d\<lparr>spots := map (\<lambda>x. if s_id x = i then g x else x) (spots d)\<rparr>) i
         = Some (g sp)"
  using assms by (simp add: get_spot_def find_map_update)

lemma get_or_404_found: "get_spot d i = Some sp \<Longrightarrow> get_or_404 d i = Inr sp"
  by (simp add: get_or_404_def)


subsection \<open>The pattern match\<close>














section \<open>The ownership gate\<close>

text \<open>
  C1. For every spot and every authenticated user who is not the owner of the spot,
  \<open>edit_spot\<close> (for a GET as for a POST, whatever the request holds) and \<open>delete_spot\<close>
  answer with a redirect to the listing and flash their permission-denied notice. The
  answer is a redirect, so it shows no spot.
\<close>

theorem non_owner_forbidden:
  assumes "load_user d s = Some u" and "get_spot d i = Some sp"
    and "user_id sp \<noteq> Some (u_id u)"
  shows "resp (edit_spot pyfloat d s r i) = Redirect To_index
       \<and> flashed (edit_spot pyfloat d s r i) = [No_permission_edit]
       \<and> rendered_spots (resp (edit_spot pyfloat d s r i)) = []
       \<and> resp (delete_spot d s i) = Redirect To_index
       \<and> flashed (delete_spot d s i) = [No_permission_delete]
       \<and> rendered_spots (resp (delete_spot d s i)) = []"
  using assms
  by (simp add: edit_spot_def delete_spot_def login_required_def respond_def get_or_404_found)

theorem non_owner_forbidden_witness:
  "load_user db1 (Some 2) = Some bob \<and> get_spot db1 1 = Some tower
   \<and> user_id tower \<noteq> Some (u_id bob)
   \<and> resp (edit_spot sample_float db1 (Some 2)
        (post_form [''name'' \<mapsto> ''Mine'', ''lat'' \<mapsto> ''north'']) 1) = Redirect To_index
   \<and> flashed (edit_spot sample_float db1 (Some 2)
        (post_form [''name'' \<mapsto> ''Mine'', ''lat'' \<mapsto> ''north'']) 1) = [No_permission_edit]
   \<and> resp (delete_spot db1 (Some 2) 1) = Redirect To_index
   \<and> flashed (delete_spot db1 (Some 2) 1) = [No_permission_delete]"
proof -
  have h: "load_user db1 (Some 2) = Some bob" "get_spot db1 1 = Some tower"
    "user_id tower \<noteq> Some (u_id bob)"
    by (simp_all add: sample_defs load_user_def get_spot_def)
  from non_owner_forbidden [OF h] h show ?thesis by simp
qed

text \<open>
  C10. Whenever \<open>edit_spot\<close> or \<open>delete_spot\<close> ends with its permission-denied notice, the
  database after the request is the database before it (so the targeted spot is still
  there with all its values, and no other spot has changed), and so is the session.
\<close>

theorem forbidden_leaves_store:
  "(flashed (edit_spot pyfloat d s r i) = [No_permission_edit] \<longrightarrow>
      db_after (edit_spot pyfloat d s r i) = d \<and> session_after (edit_spot pyfloat d s r i) = s)
   \<and> (flashed (delete_spot d s i) = [No_permission_delete] \<longrightarrow>
      db_after (delete_spot d s i) = d \<and> session_after (delete_spot d s i) = s)"
  by (auto simp: edit_spot_def delete_spot_def login_required_def respond_def fail_def
           split: option.splits sum.splits)

theorem forbidden_leaves_store_witness:
  "flashed (edit_spot sample_float db1 (Some 2) (post_form [''name'' \<mapsto> ''Mine'']) 1)
     = [No_permission_edit]
   \<and> db_after (edit_spot sample_float db1 (Some 2) (post_form [''name'' \<mapsto> ''Mine'']) 1) = db1
   \<and> flashed (delete_spot db1 (Some 2) 1) = [No_permission_delete]
   \<and> db_after (delete_spot db1 (Some 2) 1) = db1"
proof -
  have h: "flashed (edit_spot sample_float db1 (Some 2) (post_form [''name'' \<mapsto> ''Mine'']) 1)
     = [No_permission_edit]" "flashed (delete_spot db1 (Some 2) 1) = [No_permission_delete]"
    by (simp_all add: sample_defs handler_defs edit_spot_def delete_spot_def)
  with forbidden_leaves_store [of sample_float db1 "Some 2" "post_form [''name'' \<mapsto> ''Mine'']" 1]
  show ?thesis by simp
qed

section \<open>Deleting\<close>




section \<open>The city filter of the listing\<close>




section \<open>The listing and the map show the spots of their user\<close>

text \<open>
  C7. For an authenticated user, in every state of the store: the map shows exactly the
  spots whose owner field is the id of the user; the listing shows only such spots, under
  any filter, and exactly those when no city filter (or an empty one) is given. A spot the
  user creates enters the store with the user as its owner, and the map of the user shows
  it at once. So each created spot is listed for its owner and for nobody else.
\<close>

theorem listing_scoped_to_owner:
  assumes "load_user d s = Some v"
  shows "set (rendered_spots (resp (map_view d s))) =
           {x \<in> set (spots d). user_id x = Some (u_id v)}
       \<and> set (rendered_spots (resp (index d s r))) \<subseteq>
           {x \<in> set (spots d). user_id x = Some (u_id v)}
       \<and> (req_args r ''city'' = None \<or> req_args r ''city'' = Some [] \<longrightarrow>
            set (rendered_spots (resp (index d s r))) =
              {x \<in> set (spots d). user_id x = Some (u_id v)})
       \<and> (flashed (add_spot pyfloat d s q) = [Added] \<longrightarrow>
            (\<exists>x. spots (db_after (add_spot pyfloat d s q)) = spots d @ [x]
                \<and> user_id x = Some (u_id v)
                \<and> x \<in> set (rendered_spots (resp (map_view (db_after (add_spot pyfloat d s q))
                                (session_after (add_spot pyfloat d s q)))))))"
proof (intro conjI impI)
  show "set (rendered_spots (resp (map_view d s))) =
           {x \<in> set (spots d). user_id x = Some (u_id v)}"
    using assms by (auto simp: map_view_def login_required_def respond_def)
  show "set (rendered_spots (resp (index d s r))) \<subseteq>
           {x \<in> set (spots d). user_id x = Some (u_id v)}"
    using assms
    by (auto simp: index_def login_required_def respond_def fail_def Let_def
             split: option.splits if_splits)
  show "set (rendered_spots (resp (index d s r))) =
              {x \<in> set (spots d). user_id x = Some (u_id v)}"
    if "req_args r ''city'' = None \<or> req_args r ''city'' = Some []"
    using assms that
    by (auto simp: index_def login_required_def respond_def Let_def split: option.splits)
  show "\<exists>x. spots (db_after (add_spot pyfloat d s q)) = spots d @ [x]
                \<and> user_id x = Some (u_id v)
                \<and> x \<in> set (rendered_spots (resp (map_view (db_after (add_spot pyfloat d s q))
                                (session_after (add_spot pyfloat d s q)))))"
    if "flashed (add_spot pyfloat d s q) = [Added]"
    using assms that
    by (auto simp: add_spot_def map_view_def login_required_def respond_def fail_def
             split: option.splits sum.splits if_splits)
qed

theorem listing_scoped_to_owner_witness:
  "load_user db1 (Some 1) = Some alice \<and> load_user db1 (Some 2) = Some bob
   \<and> tower \<in> set (rendered_spots (resp (map_view db1 (Some 1))))
   \<and> tower \<in> set (rendered_spots (resp (index db1 (Some 1) (get_args Map.empty))))
   \<and> tower \<notin> set (rendered_spots (resp (map_view db1 (Some 2))))
   \<and> tower \<notin> set (rendered_spots (resp (index db1 (Some 2) (get_args Map.empty))))"
proof -
  have h: "load_user db1 (Some 1) = Some alice" "load_user db1 (Some 2) = Some bob"
    by (simp_all add: sample_defs load_user_def)
  have n: "req_args (get_args Map.empty) ''city'' = None" by (simp add: get_args_def)
  have t: "tower \<in> set (spots db1)" "user_id tower = Some (u_id alice)"
    "user_id tower \<noteq> Some (u_id bob)"
    by (simp_all add: sample_defs)
  from listing_scoped_to_owner [OF h(1), of "get_args Map.empty"]
       listing_scoped_to_owner [OF h(2), of "get_args Map.empty"] n t h
  show ?thesis by simp
qed

section \<open>Failed logins\<close>




section \<open>Creating a spot and reading it back\<close>

text \<open>
  C8. An authenticated user posts a new spot with the name Temple, the city Kyoto, the
  latitude \<open>35.0\<close> and the longitude \<open>135.8\<close>, where \<open>float\<close> reads the two numerals as
  the numbers \<open>a\<close> and \<open>b\<close>. The spot is stored under the fresh id; fetching that id (a
  GET of the edit page) hands over a spot with exactly the submitted name, city and
  comment, the coordinates \<open>a\<close> and \<open>b\<close>, and the user as owner.
\<close>

theorem create_then_get_roundtrip:
  assumes "load_user d s = Some u"
    and "req_method q = POST"
    and "req_form q ''name'' = Some ''Temple''" and "req_form q ''city'' = Some ''Kyoto''"
    and "req_form q ''lat'' = Some ''35.0''" and "req_form q ''lng'' = Some ''135.8''"
    and "pyfloat ''35.0'' = Some (Num a)" and "pyfloat ''135.8'' = Some (Num b)"
    and "req_method g = GET"
  shows "flashed (add_spot pyfloat d s q) = [Added]
       \<and> map s_id (spots (db_after (add_spot pyfloat d s q))) =
           map s_id (spots d) @ [fresh_id (spots d)]
       \<and> resp (edit_spot pyfloat (db_after (add_spot pyfloat d s q))
                  (session_after (add_spot pyfloat d s q)) g (fresh_id (spots d))) =
           Render_add_edit (Some
             \<lparr>s_id = fresh_id (spots d), name = ''Temple'', city = Some ''Kyoto'',
              comment = req_form q ''comment'', lat = Some a, lng = Some b,
              user_id = Some (u_id u)\<rparr>)"
proof -
  let ?x = "\<lparr>s_id = fresh_id (spots d), name = ''Temple'', city = Some ''Kyoto'',
              comment = req_form q ''comment'', lat = Some a, lng = Some b,
              user_id = Some (u_id u)\<rparr>"
  have add: "add_spot pyfloat d s q =
               respond (Redirect To_index) [Added] (d\<lparr>spots := spots d @ [?x]\<rparr>) s"
    using assms(1-8)
    by (simp add: add_spot_def login_required_def float_or_none_def stored_float_def)
  have "get_spot (d\<lparr>spots := spots d @ [?x]\<rparr>) (fresh_id (spots d)) = Some ?x"
    by (rule get_spot_appended) simp
  then have got: "get_or_404 (d\<lparr>spots := spots d @ [?x]\<rparr>) (fresh_id (spots d)) = Inr ?x"
    by (rule get_or_404_found)
  show ?thesis
    using assms(1,9) got
    by (simp add: add respond_def edit_spot_def login_required_def)
qed

theorem create_then_get_roundtrip_witness:
  "load_user db1 (Some 1) = Some alice
   \<and> sample_float ''35.0'' = Some (Num 35) \<and> sample_float ''135.8'' = Some (Num (1358 / 10))
   \<and> flashed (add_spot sample_float db1 (Some 1)
        (post_form [''name'' \<mapsto> ''Temple'', ''city'' \<mapsto> ''Kyoto'',
                    ''lat'' \<mapsto> ''35.0'', ''lng'' \<mapsto> ''135.8''])) = [Added]
   \<and> resp (edit_spot sample_float
        (db_after (add_spot sample_float db1 (Some 1)
           (post_form [''name'' \<mapsto> ''Temple'', ''city'' \<mapsto> ''Kyoto'',
                       ''lat'' \<mapsto> ''35.0'', ''lng'' \<mapsto> ''135.8''])))
        (session_after (add_spot sample_float db1 (Some 1)
           (post_form [''name'' \<mapsto> ''Temple'', ''city'' \<mapsto> ''Kyoto'',
                       ''lat'' \<mapsto> ''35.0'', ''lng'' \<mapsto> ''135.8''])))
        (get_args Map.empty) 2) =
       Render_add_edit (Some
         \<lparr>s_id = 2, name = ''Temple'', city = Some ''Kyoto'', comment = None,
          lat = Some 35, lng = Some (1358 / 10), user_id = Some 1\<rparr>)"
proof -
  let ?q = "post_form [''name'' \<mapsto> ''Temple'', ''city'' \<mapsto> ''Kyoto'',
                       ''lat'' \<mapsto> ''35.0'', ''lng'' \<mapsto> ''135.8'']"
  have h: "load_user db1 (Some 1) = Some alice" "req_method ?q = POST"
    "req_form ?q ''name'' = Some ''Temple''" "req_form ?q ''city'' = Some ''Kyoto''"
    "req_form ?q ''lat'' = Some ''35.0''" "req_form ?q ''lng'' = Some ''135.8''"
    "sample_float ''35.0'' = Some (Num 35)" "sample_float ''135.8'' = Some (Num (1358 / 10))"
    "req_method (get_args Map.empty) = GET"
    by (simp_all add: sample_defs load_user_def)
  have f: "fresh_id (spots db1) = 2" "req_form ?q ''comment'' = None" "u_id alice = 1"
    by (simp_all add: sample_defs fresh_id_def)
  from create_then_get_roundtrip [of db1 "Some 1" alice ?q sample_float 35 "1358 / 10"
         "get_args Map.empty", OF h] f h(1,7,8)
  show ?thesis by simp
qed

section \<open>Parsing the coordinates\<close>



text \<open>
  C5. For a POST with a name by an authenticated user, a non-empty latitude string that
  \<open>float\<close> reads as the number \<open>v\<close> is stored as \<open>v\<close>, whatever number \<open>v\<close> is: by
  \<open>add_spot\<close>, also for a user without any spot, and by \<open>edit_spot\<close> when the user owns the
  spot; the request succeeds, and the longitude is stored as read in the same way. No
  range is checked: with the sample reader, the latitude \<open>91\<close> is stored as 91, which is
  above 90.
\<close>

theorem coordinates_not_range_checked:
  assumes "load_user d s = Some u"
    and "req_method r = POST" and "req_form r ''name'' = Some n"
    and "req_form r ''lat'' = Some t" and "t \<noteq> []" and "pyfloat t = Some (Num v)"
    and "float_or_none pyfloat (req_form r ''lng'') = Inr lo"
  shows "resp (add_spot pyfloat d s r) = Redirect To_index
       \<and> flashed (add_spot pyfloat d s r) = [Added]
       \<and> spots (db_after (add_spot pyfloat d s r)) =
           spots d @ [\<lparr>s_id = fresh_id (spots d), name = n, city = req_form r ''city'',
                        comment = req_form r ''comment'', lat = Some v, lng = stored_float lo,
                        user_id = Some (u_id u)\<rparr>]
       \<and> (get_spot d i = Some sp \<and> user_id sp = Some (u_id u) \<longrightarrow>
            resp (edit_spot pyfloat d s r i) = Redirect To_index
            \<and> flashed (edit_spot pyfloat d s r i) = [Updated]
            \<and> get_spot (db_after (edit_spot pyfloat d s r i)) i =
                Some (sp\<lparr>name := n, city := req_form r ''city'',
                         comment := req_form r ''comment'',
                         lat := Some v, lng := stored_float lo\<rparr>))"
proof -
  have la: "float_or_none pyfloat (req_form r ''lat'') = Inr (Some (Num v))"
    using assms(4-6) by (simp add: float_or_none_def)
  have sv: "stored_float (Some (Num v)) = Some v" by (simp add: stored_float_def)
  have add: "add_spot pyfloat d s r =
      respond (Redirect To_index) [Added]
        (d\<lparr>spots := spots d @ [\<lparr>s_id = fresh_id (spots d), name = n, city = req_form r ''city'',
                        comment = req_form r ''comment'', lat = Some v, lng = stored_float lo,
                        user_id = Some (u_id u)\<rparr>]\<rparr>) s"
    using assms(1-3,7) la by (simp add: add_spot_def login_required_def sv)
  have edit: "resp (edit_spot pyfloat d s r i) = Redirect To_index
            \<and> flashed (edit_spot pyfloat d s r i) = [Updated]
            \<and> get_spot (db_after (edit_spot pyfloat d s r i)) i =
                Some (sp\<lparr>name := n, city := req_form r ''city'',
                         comment := req_form r ''comment'',
                         lat := Some v, lng := stored_float lo\<rparr>)"
    if sp: "get_spot d i = Some sp" and own: "user_id sp = Some (u_id u)"
  proof -
    let ?g = "\<lambda>x. x\<lparr>name := n, city := req_form r ''city'', comment := req_form r ''comment'',
                    lat := Some v, lng := stored_float lo\<rparr>"
    have e: "edit_spot pyfloat d s r i =
      respond (Redirect To_index) [Updated]
        (d\<lparr>spots := map (\<lambda>x. if s_id x = i then ?g x else x) (spots d)\<rparr>) s"
      using assms(1-3,7) la own get_or_404_found [OF sp]
      by (simp add: edit_spot_def login_required_def sv cong: if_cong)
    have "get_spot (d\<lparr>spots := map (\<lambda>x. if s_id x = i then ?g x else x) (spots d)\<rparr>) i
                  = Some (?g sp)"
      by (rule get_spot_updated [OF sp]) simp
    then show ?thesis by (simp add: e respond_def)
  qed
  show ?thesis using edit by (simp add: add respond_def)
qed

theorem coordinates_not_range_checked_witness:
  "load_user db1 (Some 2) = Some bob \<and> load_user db1 (Some 1) = Some alice
   \<and> sample_float ''91'' = Some (Num 91) \<and> (90::real) < 91
   \<and> get_spot db1 1 = Some tower \<and> user_id tower = Some (u_id alice)
   \<and> flashed (add_spot sample_float db1 (Some 2)
        (post_form [''name'' \<mapsto> ''Tower'', ''lat'' \<mapsto> ''91'', ''lng'' \<mapsto> ''''])) = [Added]
   \<and> spots (db_after (add_spot sample_float db1 (Some 2)
        (post_form [''name'' \<mapsto> ''Tower'', ''lat'' \<mapsto> ''91'', ''lng'' \<mapsto> '''']))) =
       [tower, \<lparr>s_id = 2, name = ''Tower'', city = None, comment = None,
                lat = Some 91, lng = None, user_id = Some 2\<rparr>]
   \<and> flashed (edit_spot sample_float db1 (Some 1)
        (post_form [''name'' \<mapsto> ''Tower'', ''lat'' \<mapsto> ''91'', ''lng'' \<mapsto> '''']) 1) = [Updated]
   \<and> get_spot (db_after (edit_spot sample_float db1 (Some 1)
        (post_form [''name'' \<mapsto> ''Tower'', ''lat'' \<mapsto> ''91'', ''lng'' \<mapsto> '''']) 1)) 1 =
       Some \<lparr>s_id = 1, name = ''Tower'', city = None, comment = None,
             lat = Some 91, lng = None, user_id = Some 1\<rparr>"
proof -
  let ?r = "post_form [''name'' \<mapsto> ''Tower'', ''lat'' \<mapsto> ''91'', ''lng'' \<mapsto> '''']"
  have h: "load_user db1 (Some 2) = Some bob" "load_user db1 (Some 1) = Some alice"
    "get_spot db1 1 = Some tower" "user_id tower = Some (u_id alice)"
    by (simp_all add: sample_defs load_user_def get_spot_def)
  have q: "req_method ?r = POST"
    "req_form ?r ''name'' = Some ''Tower''" "req_form ?r ''lat'' = Some ''91''"
    "''91'' \<noteq> []" "sample_float ''91'' = Some (Num 91)"
    "float_or_none sample_float (req_form ?r ''lng'') = Inr None"
    by (simp_all add: sample_defs float_or_none_def)
  have f: "req_form ?r ''city'' = None" "req_form ?r ''comment'' = None"
    "stored_float (None :: real pyfloat option) = None"
    "fresh_id (spots db1) = 2" "spots db1 = [tower]" "u_id bob = 2"
    by (simp_all add: sample_defs stored_float_def fresh_id_def)
  from coordinates_not_range_checked [of db1 "Some 2" bob ?r "''Tower''" "''91''"
         sample_float 91 None 1 tower, OF h(1) q]
       coordinates_not_range_checked [of db1 "Some 1" alice ?r "''Tower''" "''91''"
         sample_float 91 None 1 tower, OF h(2) q] f h q(5)
  show ?thesis by (simp add: tower_def)
qed

section \<open>The name of a new spot\<close>

text \<open>
  A POST of \<open>add_spot\<close> whose name is the empty string is not rejected: the request
  succeeds and a spot with the empty name is added, which is not what C4 says.
\<close>

theorem add_spot_empty_name_counterexample:
  "load_user db1 (Some 1) = Some alice
   \<and> req_form (post_form [''name'' \<mapsto> '''']) ''name'' = Some ''''
   \<and> resp (add_spot sample_float db1 (Some 1) (post_form [''name'' \<mapsto> ''''])) = Redirect To_index
   \<and> flashed (add_spot sample_float db1 (Some 1) (post_form [''name'' \<mapsto> ''''])) = [Added]
   \<and> spots (db_after (add_spot sample_float db1 (Some 1) (post_form [''name'' \<mapsto> '''']))) =
       [tower, \<lparr>s_id = 2, name = '''', city = None, comment = None,
                lat = None, lng = None, user_id = Some 1\<rparr>]"
  by (simp add: sample_defs handler_defs add_spot_def float_or_none_def fresh_id_def
        stored_float_def)

text \<open>
  C4, as the code has it. For every authenticated user, a POST of \<open>add_spot\<close> fails,
  with a Bad Request, when the form has no name field, and then no spot is added; a name
  that is the empty string is accepted and stored as it is (when the coordinates are read
  without error).
\<close>

theorem add_spot_name_required:
  assumes "load_user d s = Some u" and "req_method r = POST"
  shows "(req_form r ''name'' = None \<longrightarrow>
            resp (add_spot pyfloat d s r) = Failed Bad_request
            \<and> flashed (add_spot pyfloat d s r) = []
            \<and> db_after (add_spot pyfloat d s r) = d)
       \<and> (req_form r ''name'' = Some []
            \<and> float_or_none pyfloat (req_form r ''lat'') = Inr la
            \<and> float_or_none pyfloat (req_form r ''lng'') = Inr lo \<longrightarrow>
            resp (add_spot pyfloat d s r) = Redirect To_index
            \<and> flashed (add_spot pyfloat d s r) = [Added]
            \<and> spots (db_after (add_spot pyfloat d s r)) =
                spots d @ [\<lparr>s_id = fresh_id (spots d), name = [], city = req_form r ''city'',
                             comment = req_form r ''comment'',
                             lat = stored_float la, lng = stored_float lo,
                             user_id = Some (u_id u)\<rparr>])"
  using assms by (simp add: add_spot_def login_required_def respond_def fail_def)

theorem add_spot_name_required_witness:
  "load_user db1 (Some 1) = Some alice
   \<and> req_form (post_form [''city'' \<mapsto> ''Kyoto'']) ''name'' = None
   \<and> resp (add_spot sample_float db1 (Some 1) (post_form [''city'' \<mapsto> ''Kyoto''])) =
       Failed Bad_request
   \<and> db_after (add_spot sample_float db1 (Some 1) (post_form [''city'' \<mapsto> ''Kyoto''])) = db1
   \<and> req_form (post_form [''name'' \<mapsto> '''']) ''name'' = Some []
   \<and> flashed (add_spot sample_float db1 (Some 1) (post_form [''name'' \<mapsto> ''''])) = [Added]"
proof -
  let ?r1 = "post_form [''city'' \<mapsto> ''Kyoto'']"
  let ?r2 = "post_form [''name'' \<mapsto> '''']"
  have h: "load_user db1 (Some 1) = Some alice" "req_method ?r1 = POST" "req_method ?r2 = POST"
    "req_form ?r1 ''name'' = None" "req_form ?r2 ''name'' = Some []"
    "float_or_none sample_float (req_form ?r2 ''lat'') = Inr None"
    "float_or_none sample_float (req_form ?r2 ''lng'') = Inr None"
    by (simp_all add: sample_defs load_user_def float_or_none_def)
  from add_spot_name_required [of db1 "Some 1" alice ?r1 sample_float None None, OF h(1,2)]
       add_spot_name_required [of db1 "Some 1" alice ?r2 sample_float None None, OF h(1,3)] h
  show ?thesis by blast
qed

end
